theory Spec2Isabelle
  imports Main
begin

section \<open>Schemas: the TypeScript types that paths are resolved against\<close>

text \<open>
  The program is a pair of type-level functions, \<^verbatim>\<open>TypeAt<T, K>\<close> and
  \<^verbatim>\<open>Paths<T, Depth>\<close> of \<^verbatim>\<open>src/typeAt.ts\<close>, evaluated by the TypeScript
  type checker.  A schema is a TypeScript type.  The embedding covers the types below;
  \<^verbatim>\<open>never\<close> is the union of no types.

  \<^item> An object type is its list of declared properties (name, optional marker, declared
    type) and its string index signature, if it has one.
  \<^item> \<open>TRef n\<close> is a named interface, looked up in a table of declarations, so that a
    self-referential interface is a finite value.
  \<^item> \<open>TLib\<close> stands for the library object types that \<^verbatim>\<open>IsTerminal\<close> lists.

  What is left out: literal types, numeric and symbol property names, optional tuple
  elements, and the members which arrays, tuples, primitives and library objects inherit
  from the standard library (\<^verbatim>\<open>length\<close>, \<^verbatim>\<open>push\<close>, ...): an array is
  index-addressed only and a library object is opaque.  The type checker's options are
  \<^verbatim>\<open>strictNullChecks\<close> on and \<^verbatim>\<open>exactOptionalPropertyTypes\<close> off, and
  \<^verbatim>\<open>null & {}\<close> and \<^verbatim>\<open>undefined & {}\<close> are \<^verbatim>\<open>never\<close> (TypeScript 4.8
  and later).
\<close>

datatype lib = Date | RegExp | Promise | Function

datatype ty =
    TString
  | TNumber
  | TBoolean
  | TNull
  | TUndefined
  | TLib lib
  | TObject "(string \<times> bool \<times> ty) list" "ty option"
  | TArray ty
  | TTuple "ty list"
  | TUnion "ty list"
  | TRef string

type_synonym property = "string \<times> bool \<times> ty"

text \<open>The declarations of the named interfaces: properties and string index signature.\<close>

type_synonym decls = "string \<Rightarrow> property list \<times> ty option"

abbreviation never :: ty where
  "never \<equiv> TUnion []"

subsection \<open>Unions\<close>

text \<open>The members of a type: a union is flattened, any other type is its own only member.\<close>

fun flat :: "ty \<Rightarrow> ty list" where
  "flat (TUnion ts) = concat (map flat ts)"
| "flat t = [t]"

text \<open>
  A union type as the checker builds it: flattened, without duplicates, a union of one
  member being that member.
\<close>

definition unite :: "ty list \<Rightarrow> ty" where
  "unite ts = (case remdups (concat (map flat ts)) of [t] \<Rightarrow> t | us \<Rightarrow> TUnion us)"

text \<open>
  The members with every named interface replaced by its declaration: what a
  distributive conditional type ranges over, and what the structural checks look at.
\<close>

definition atoms :: "decls \<Rightarrow> ty \<Rightarrow> ty list" where
  "atoms env t =
     map (\<lambda>a. case a of TRef n \<Rightarrow> TObject (fst (env n)) (snd (env n)) | _ \<Rightarrow> a) (flat t)"

subsection \<open>Built-in type operators\<close>

text \<open>\<^verbatim>\<open>Exclude<T, undefined>\<close>.\<close>

definition ExcludeUndefined :: "ty \<Rightarrow> ty" where
  "ExcludeUndefined t = unite (filter (\<lambda>a. a \<noteq> TUndefined) (flat t))"

text \<open>\<^verbatim>\<open>NonNullable<T>\<close>, that is \<^verbatim>\<open>T & {}\<close>.\<close>

definition NonNullable :: "ty \<Rightarrow> ty" where
  "NonNullable t = unite (filter (\<lambda>a. a \<noteq> TUndefined \<and> a \<noteq> TNull) (flat t))"

text \<open>\<^verbatim>\<open>undefined extends T\<close>.\<close>

definition undefined_extends :: "ty \<Rightarrow> bool" where
  "undefined_extends t = (TUndefined \<in> set (flat t))"

text \<open>
  \<^verbatim>\<open>T extends object\<close> for one member: object types, arrays, tuples and library objects
  are objects; primitives, \<^verbatim>\<open>null\<close> and \<^verbatim>\<open>undefined\<close> are not.
\<close>

fun is_object :: "ty \<Rightarrow> bool" where
  "is_object (TObject ps idx) = True"
| "is_object (TArray e) = True"
| "is_object (TTuple es) = True"
| "is_object (TLib l) = True"
| "is_object (TRef n) = True"
| "is_object t = False"

text \<open>
  \<^verbatim>\<open>X extends object\<close> where \<open>X\<close> is not a bare type parameter: no distribution, a
  union is assignable when every member is, and so is \<^verbatim>\<open>never\<close>.
\<close>

definition extends_object :: "ty \<Rightarrow> bool" where
  "extends_object t = list_all is_object (flat t)"

text \<open>\<^verbatim>\<open>T extends any[]\<close> for one member.\<close>

fun is_array :: "ty \<Rightarrow> bool" where
  "is_array (TArray e) = True"
| "is_array (TTuple es) = True"
| "is_array t = False"

definition extends_array :: "ty \<Rightarrow> bool" where
  "extends_array t = list_all is_array (flat t)"

text \<open>The type a property is read at: an optional property may be \<^verbatim>\<open>undefined\<close>.\<close>

definition prop_type :: "bool \<times> ty \<Rightarrow> ty" where
  "prop_type p = (if fst p then unite [snd p, TUndefined] else snd p)"

text \<open>The property name of a tuple position: its decimal numeral.\<close>

definition digit_of :: "nat \<Rightarrow> char" where
  "digit_of n = ''0123456789'' ! n"

fun decimal_of :: "nat \<Rightarrow> string" where
  "decimal_of n = (if n < 10 then [digit_of n] else decimal_of (n div 10) @ [digit_of (n mod 10)])"

definition tuple_keys :: "ty list \<Rightarrow> (string \<times> ty) list" where
  "tuple_keys es = zip (map decimal_of [0 ..< length es]) es"

text \<open>
  \<^verbatim>\<open>K extends keyof T\<close> for one member and a string literal \<open>K\<close>: a declared
  property, any string when there is a string index signature, a position of a tuple.
\<close>

fun key_of :: "ty \<Rightarrow> string \<Rightarrow> bool" where
  "key_of (TObject ps idx) k = (map_of ps k \<noteq> None \<or> idx \<noteq> None)"
| "key_of (TTuple es) k = (map_of (tuple_keys es) k \<noteq> None)"
| "key_of t k = False"

text \<open>
  \<^verbatim>\<open>K extends keyof T\<close> for the whole of \<open>T\<close>: the keys of a union are the keys
  that all its members have, and \<^verbatim>\<open>keyof never\<close> has every key.
\<close>

definition extends_keyof :: "decls \<Rightarrow> ty \<Rightarrow> string \<Rightarrow> bool" where
  "extends_keyof env t k = list_all (\<lambda>a. key_of a k) (atoms env t)"

text \<open>The indexed access \<^verbatim>\<open>T[K]\<close> for one member that has the key.\<close>

fun index_atom :: "ty \<Rightarrow> string \<Rightarrow> ty" where
  "index_atom (TObject ps idx) k =
     (case map_of ps k of Some p \<Rightarrow> prop_type p
      | None \<Rightarrow> (case idx of Some v \<Rightarrow> v | None \<Rightarrow> never))"
| "index_atom (TTuple es) k = (case map_of (tuple_keys es) k of Some e \<Rightarrow> e | None \<Rightarrow> never)"
| "index_atom t k = never"

text \<open>\<^verbatim>\<open>T[K]\<close>: the union of what each member has at the key.\<close>

definition index :: "decls \<Rightarrow> ty \<Rightarrow> string \<Rightarrow> ty" where
  "index env t k = unite (map (\<lambda>a. index_atom a k) (atoms env t))"

text \<open>
  \<^verbatim>\<open>T extends { [P in K]: any }\<close> for one member: the member has the property and
  the property is required.  An optional property and an index signature do not provide
  a required property.
\<close>

fun has_required :: "ty \<Rightarrow> string \<Rightarrow> bool" where
  "has_required (TObject ps idx) k = (case map_of ps k of Some p \<Rightarrow> \<not> fst p | None \<Rightarrow> False)"
| "has_required (TTuple es) k = (map_of (tuple_keys es) k \<noteq> None)"
| "has_required t k = False"

text \<open>\<^verbatim>\<open>string extends keyof T\<close> for one member: it has a string index signature.\<close>

fun has_string_index :: "ty \<Rightarrow> bool" where
  "has_string_index (TObject ps idx) = (idx \<noteq> None)"
| "has_string_index t = False"

subsection \<open>Template literal patterns\<close>

text \<open>
  A string literal is matched against a template by taking, for each placeholder that
  a text follows, the shortest piece up to the first occurrence of that text; the last
  placeholder takes the rest.  There is no backtracking.
\<close>

fun split_at :: "char \<Rightarrow> string \<Rightarrow> (string \<times> string) option" where
  "split_at c [] = None"
| "split_at c (x # xs) =
     (if x = c then Some ([], xs)
      else (case split_at c xs of None \<Rightarrow> None | Some (a, b) \<Rightarrow> Some (x # a, b)))"

text \<open>\<^verbatim>\<open>K extends `${infer I}.${infer Rest}`\<close>.\<close>

definition split_dot :: "string \<Rightarrow> (string \<times> string) option" where
  "split_dot k = split_at CHR ''.'' k"

text \<open>
  \<^verbatim>\<open>K extends `[${number}]${infer Rest}`\<close>.  Which texts the placeholder
  \<^verbatim>\<open>${number}\<close> accepts is decided by the type checker (the texts that JavaScript
  converts to a finite number); it is the parameter \<open>num\<close>.
\<close>

definition match_index :: "(string \<Rightarrow> bool) \<Rightarrow> string \<Rightarrow> string option" where
  "match_index num k =
     (case k of [] \<Rightarrow> None
      | x # xs \<Rightarrow>
          if x = CHR ''['' then
            (case split_at CHR '']'' xs of None \<Rightarrow> None
             | Some (n, rest) \<Rightarrow> if num n then Some rest else None)
          else None)"

text \<open>\<^verbatim>\<open>K extends `${infer Base}[${number}]${infer Rest}`\<close>.\<close>

definition match_base_index :: "(string \<Rightarrow> bool) \<Rightarrow> string \<Rightarrow> (string \<times> string) option" where
  "match_base_index num k =
     (case split_at CHR ''['' k of None \<Rightarrow> None
      | Some (base, r) \<Rightarrow>
          (case split_at CHR '']'' r of None \<Rightarrow> None
           | Some (n, rest) \<Rightarrow> if num n then Some (base, rest) else None))"

text \<open>\<^verbatim>\<open>Rest extends `.${infer NestedRest}`\<close>.\<close>

definition strip_dot :: "string \<Rightarrow> string option" where
  "strip_dot r = (case r of [] \<Rightarrow> None | x # xs \<Rightarrow> if x = CHR ''.'' then Some xs else None)"

text \<open>The non-negative integer literals: a non-empty text of decimal digits.\<close>

definition digit :: "char \<Rightarrow> bool" where
  "digit c = (c \<in> set ''0123456789'')"

definition decimal :: "string \<Rightarrow> bool" where
  "decimal s = (s \<noteq> [] \<and> list_all digit s)"

lemma split_at_length: "split_at c k = Some (a, b) \<Longrightarrow> length b < length k"
  by (induction k arbitrary: a) (auto split: if_splits option.splits)

lemma split_dot_length: "split_dot k = Some (a, b) \<Longrightarrow> length b < length k"
  by (simp add: split_dot_def split_at_length)

lemma match_index_length: "match_index num k = Some r \<Longrightarrow> length r < length k"
  by (auto simp: match_index_def split: list.splits if_splits option.splits
      dest: split_at_length)

lemma match_base_index_length: "match_base_index num k = Some (b, r) \<Longrightarrow> length r < length k"
  by (fastforce simp: match_base_index_def split: if_splits option.splits
      dest: split_at_length)

lemma strip_dot_length: "strip_dot r = Some n \<Longrightarrow> length n < length r"
  by (auto simp: strip_dot_def split: list.splits if_splits)

section \<open>The resolver: \<^verbatim>\<open>TypeAt\<close>\<close>

text \<open>
  The helper types of \<^verbatim>\<open>src/typeAt.ts\<close>, each under its own name.  A conditional
  type whose checked type is a bare type parameter distributes over the members of a
  union; where the source checks \<open>T\<close> this way the definition ranges over
  \<open>atoms env T\<close>.  A helper that answers \<^verbatim>\<open>true\<close> or \<^verbatim>\<open>never\<close> is a
  \<open>bool\<close>: \<open>True\<close> for \<^verbatim>\<open>true\<close>, \<open>False\<close> for \<^verbatim>\<open>never\<close>; the union of
  such answers is \<^verbatim>\<open>true\<close> when one of them is.
\<close>

text \<open>
  \<^verbatim>\<open>Merged<T> = { [K in keyof T]: T[K] } & {}\<close>: a homomorphic mapped type, so it
  distributes over a union, copies an object type, an array and a tuple, and returns a
  primitive unchanged; the intersection with \<^verbatim>\<open>{}\<close> removes \<^verbatim>\<open>null\<close> and
  \<^verbatim>\<open>undefined\<close>.
\<close>

fun Merged_member :: "ty \<Rightarrow> ty" where
  "Merged_member TNull = never"
| "Merged_member TUndefined = never"
| "Merged_member t = t"

definition Merged :: "decls \<Rightarrow> ty \<Rightarrow> ty" where
  "Merged env t = unite (map Merged_member (atoms env t))"

text \<open>
  \<^verbatim>\<open>Normalize<T>\<close>, distributive in \<open>T\<close>: arrays and tuples as they are, an object
  type with every property required and read through \<^verbatim>\<open>NonNullable\<close>, a primitive
  as it is.  A library object, whose members are not part of the model, is left as it
  is by \<^verbatim>\<open>Normalize\<close> and by \<^verbatim>\<open>Merged\<close>.
\<close>

fun Normalize_member :: "ty \<Rightarrow> ty" where
  "Normalize_member (TObject ps idx) =
     TObject (map (\<lambda>(n, p). (n, False, NonNullable (prop_type p))) ps) (map_option NonNullable idx)"
| "Normalize_member t = t"

definition Normalize :: "decls \<Rightarrow> ty \<Rightarrow> ty" where
  "Normalize env t = unite (map Normalize_member (atoms env t))"

text \<open>\<^verbatim>\<open>ExactType<T, K>\<close>, distributive in \<open>T\<close>.\<close>

definition ExactType :: "decls \<Rightarrow> ty \<Rightarrow> string \<Rightarrow> ty" where
  "ExactType env t k =
     unite (map (\<lambda>a. if has_required a k then Normalize env (Merged env (index_atom a k)) else never)
       (atoms env t))"

text \<open>\<^verbatim>\<open>IsExplicitKey<T, K>\<close>, distributive in \<open>T\<close>.\<close>

definition IsExplicitKey :: "decls \<Rightarrow> ty \<Rightarrow> string \<Rightarrow> bool" where
  "IsExplicitKey env t k = list_ex (\<lambda>a. has_required a k) (atoms env t)"

text \<open>\<^verbatim>\<open>KeyType<T, K>\<close>, distributive in \<open>T\<close>.\<close>

definition KeyType :: "decls \<Rightarrow> ty \<Rightarrow> string \<Rightarrow> ty" where
  "KeyType env t k =
     unite (map (\<lambda>a. if has_required a k then (if key_of a k then index_atom a k else never) else never)
       (atoms env t))"

text \<open>
  \<^verbatim>\<open>IsExplicitKey<T, K> extends true\<close>: the checked type is not a bare type parameter,
  so there is no distribution, and both possible answers are assignable to
  \<^verbatim>\<open>true\<close>: \<^verbatim>\<open>true\<close> itself, and \<^verbatim>\<open>never\<close>, which is assignable to every type.
\<close>

definition extends_true :: "bool \<Rightarrow> bool" where
  "extends_true flag = (case flag of True \<Rightarrow> True | False \<Rightarrow> True)"

text \<open>\<^verbatim>\<open>IsIndexKey<T, K>\<close>.\<close>

definition IsIndexKey :: "decls \<Rightarrow> ty \<Rightarrow> string \<Rightarrow> bool" where
  "IsIndexKey env t k =
     (if extends_keyof env t k
      then (if extends_true (IsExplicitKey env t k) then False else True)
      else False)"

text \<open>\<^verbatim>\<open>IndexKeyType<T, K>\<close>.\<close>

definition IndexKeyType :: "decls \<Rightarrow> ty \<Rightarrow> string \<Rightarrow> ty" where
  "IndexKeyType env t k =
     (if extends_keyof env t k
      then (if extends_true (IsExplicitKey env t k) then never else ExactType env t k)
      else never)"

text \<open>
  \<^verbatim>\<open>ArrayElementType<T>\<close>, distributive in \<open>T\<close>: the element type of an array, the
  union of the element types of a tuple.  The source applies it to arrays and tuples only.
\<close>

fun ArrayElementType_member :: "ty \<Rightarrow> ty" where
  "ArrayElementType_member (TArray e) = e"
| "ArrayElementType_member (TTuple es) = unite es"
| "ArrayElementType_member t = never"

definition ArrayElementType :: "decls \<Rightarrow> ty \<Rightarrow> ty" where
  "ArrayElementType env t = unite (map ArrayElementType_member (atoms env t))"

text \<open>\<^verbatim>\<open>IsArray<T, K>\<close>, distributive in \<open>T\<close>.\<close>

definition IsArray_member :: "(string \<Rightarrow> bool) \<Rightarrow> ty \<Rightarrow> string \<Rightarrow> bool" where
  "IsArray_member num a k =
     (if is_array a
      then (case match_index num k of Some rest \<Rightarrow> True | None \<Rightarrow> False)
      else (case match_base_index num k of
              Some (base, rest) \<Rightarrow>
                if key_of a base
                then (if extends_array (NonNullable (index_atom a base)) then True else False)
                else False
            | None \<Rightarrow> False))"

definition IsArray :: "(string \<Rightarrow> bool) \<Rightarrow> decls \<Rightarrow> ty \<Rightarrow> string \<Rightarrow> bool" where
  "IsArray num env t k = list_ex (\<lambda>a. IsArray_member num a k) (atoms env t)"

text \<open>
  \<^verbatim>\<open>IsDictionaryKey<T, K>\<close>, distributive in \<open>T\<close>.  Every object is assignable to
  \<^verbatim>\<open>{ [key: string]: any }\<close>; \<^verbatim>\<open>K extends `${string}.${string}`\<close> holds when
  the key contains a dot.
\<close>

definition IsDictionaryKey_member :: "ty \<Rightarrow> string \<Rightarrow> bool" where
  "IsDictionaryKey_member a k =
     (if is_object a
      then (if has_string_index a
            then (if split_dot k \<noteq> None then False else True)
            else False)
      else False)"

definition IsDictionaryKey :: "decls \<Rightarrow> ty \<Rightarrow> string \<Rightarrow> bool" where
  "IsDictionaryKey env t k = list_ex (\<lambda>a. IsDictionaryKey_member a k) (atoms env t)"

text \<open>
  \<^verbatim>\<open>DictionaryKeyType<T, K>\<close>, distributive in \<open>T\<close>; \<^verbatim>\<open>T[keyof T]\<close> of a type
  with a string index signature is the type of that signature.
\<close>

fun index_signature :: "ty \<Rightarrow> ty" where
  "index_signature (TObject ps (Some v)) = v"
| "index_signature t = never"

definition DictionaryKeyType :: "decls \<Rightarrow> ty \<Rightarrow> string \<Rightarrow> ty" where
  "DictionaryKeyType env t k =
     unite (map (\<lambda>a. if is_object a
                      then (if has_string_index a
                            then (if split_dot k \<noteq> None then never else index_signature a)
                            else never)
                      else never)
       (atoms env t))"

text \<open>\<^verbatim>\<open>IsNestedKey<T, K>\<close>.\<close>

definition IsNestedKey :: "decls \<Rightarrow> ty \<Rightarrow> string \<Rightarrow> bool" where
  "IsNestedKey env t k =
     (case split_dot k of
        Some (i, rest) \<Rightarrow>
          if extends_true (IsExplicitKey env t i)
          then (if extends_keyof env t i
                then (if extends_object (index env t i) then True else False)
                else False)
          else False
      | None \<Rightarrow> False)"

text \<open>\<^verbatim>\<open>IsOptionalKey<T, K>\<close>.\<close>

definition IsOptionalKey :: "decls \<Rightarrow> ty \<Rightarrow> string \<Rightarrow> bool" where
  "IsOptionalKey env t k =
     (case split_dot k of
        Some (i, rest) \<Rightarrow>
          if extends_keyof env t i
          then (if undefined_extends (index env t i)
                then (if extends_object (ExcludeUndefined (index env t i)) then True else False)
                else False)
          else False
      | None \<Rightarrow>
          if extends_keyof env t k
          then (if undefined_extends (index env t k) then True else False)
          else False)"

text \<open>
  \<^verbatim>\<open>TypeAt<T, K>\<close> with \<^verbatim>\<open>NestedKeyType\<close>, \<^verbatim>\<open>ArrayType\<close> and
  \<^verbatim>\<open>OptionalKeyType\<close>, which call it back on a shorter path.  \<^verbatim>\<open>ArrayType\<close>
  distributes over \<open>T\<close>; \<open>ArrayType_member\<close> is its body for one member.
  \<^verbatim>\<open>X extends never\<close> holds of an answer exactly when the answer is \<^verbatim>\<open>never\<close>.

  Every call back is on a path that is shorter, which is the termination proof below.
  The checker's limit on the depth of instantiations, which a path of very many
  segments exceeds, is not part of the model.
\<close>

function TypeAt :: "(string \<Rightarrow> bool) \<Rightarrow> decls \<Rightarrow> ty \<Rightarrow> string \<Rightarrow> ty"
  and NestedKeyType :: "(string \<Rightarrow> bool) \<Rightarrow> decls \<Rightarrow> ty \<Rightarrow> string \<Rightarrow> ty"
  and ArrayType :: "(string \<Rightarrow> bool) \<Rightarrow> decls \<Rightarrow> ty \<Rightarrow> string \<Rightarrow> ty"
  and ArrayType_member :: "(string \<Rightarrow> bool) \<Rightarrow> decls \<Rightarrow> ty \<Rightarrow> string \<Rightarrow> ty"
  and OptionalKeyType :: "(string \<Rightarrow> bool) \<Rightarrow> decls \<Rightarrow> ty \<Rightarrow> string \<Rightarrow> ty"
where
  "TypeAt num env t k =
     (if \<not> IsExplicitKey env t k
      then (if \<not> IsIndexKey env t k
            then (if \<not> IsNestedKey env t k
                  then (if \<not> IsArray num env t k
                        then (if \<not> IsDictionaryKey env t k
                              then (if \<not> IsOptionalKey env t k
                                    then never
                                    else OptionalKeyType num env t k)
                              else DictionaryKeyType env t k)
                        else ArrayType num env t k)
                  else NestedKeyType num env t k)
            else IndexKeyType env t k)
      else KeyType env t k)"
| "NestedKeyType num env t k =
     (case split_dot k of
        Some (i, rest) \<Rightarrow>
          if extends_true (IsExplicitKey env t i)
          then (if extends_keyof env t i
                then (if extends_object (index env t i)
                      then TypeAt num env (Normalize env (Merged env (index env t i))) rest
                      else never)
                else never)
          else never
      | None \<Rightarrow> never)"
| "ArrayType num env t k = unite (map (\<lambda>a. ArrayType_member num env a k) (atoms env t))"
| "ArrayType_member num env a k =
     (if is_array a
      then (case match_index num k of
              Some rest \<Rightarrow>
                if rest = []
                then Normalize env (Merged env (ArrayElementType env a))
                else (case strip_dot rest of
                        Some nested_rest \<Rightarrow>
                          TypeAt num env (Normalize env (Merged env (ArrayElementType env a))) nested_rest
                      | None \<Rightarrow>
                          TypeAt num env (Normalize env (Merged env (ArrayElementType env a))) rest)
            | None \<Rightarrow> never)
      else (case match_base_index num k of
              Some (base, rest) \<Rightarrow>
                if key_of a base
                then (if extends_array (NonNullable (index_atom a base))
                      then (if rest = []
                            then Normalize env (Merged env
                                   (ArrayElementType env (NonNullable (index_atom a base))))
                            else (case strip_dot rest of
                                    Some nested_rest \<Rightarrow>
                                      TypeAt num env (Normalize env (Merged env
                                        (ArrayElementType env (NonNullable (index_atom a base)))))
                                        nested_rest
                                  | None \<Rightarrow>
                                      TypeAt num env (Normalize env (Merged env
                                        (ArrayElementType env (NonNullable (index_atom a base)))))
                                        rest))
                      else never)
                else never
            | None \<Rightarrow> never))"
| "OptionalKeyType num env t k =
     (case split_dot k of
        Some (i, rest) \<Rightarrow>
          if extends_keyof env t i
          then (if undefined_extends (index env t i)
                then TypeAt num env (ExcludeUndefined (index env t i)) rest
                else never)
          else never
      | None \<Rightarrow>
          if extends_keyof env t k
          then (if undefined_extends (index env t k) then ExcludeUndefined (index env t k) else never)
          else never)"
  by pat_completeness auto
termination
  by (relation "measure (\<lambda>x. case x of
          Inl (Inl (num, env, t, k)) \<Rightarrow> 3 * length k + 2
        | Inl (Inr (num, env, t, k)) \<Rightarrow> 3 * length k
        | Inr (Inl (num, env, t, k)) \<Rightarrow> 3 * length k + 1
        | Inr (Inr (Inl (num, env, t, k))) \<Rightarrow> 3 * length k
        | Inr (Inr (Inr (num, env, t, k))) \<Rightarrow> 3 * length k)")
    (auto dest!: split_dot_length match_index_length match_base_index_length strip_dot_length)

section \<open>The enumerator: \<^verbatim>\<open>Paths\<close>\<close>

text \<open>
  \<^verbatim>\<open>Paths<T, Depth>\<close> is a union of string literal and template literal types.  A
  member of it is a pattern: a list of characters and placeholders, \<open>NumHole\<close> for
  \<^verbatim>\<open>${number}\<close> and \<open>StrHole\<close> for \<^verbatim>\<open>${string}\<close>, so that joining templates is
  appending lists.  The union is a list, read as a set.
\<close>

datatype sym = Ch char | NumHole | StrHole

type_synonym pattern = "sym list"

definition lit :: "string \<Rightarrow> pattern" where
  "lit s = map Ch s"

text \<open>The template \<^verbatim>\<open>`[${number}]`\<close>.\<close>

definition index_hole :: pattern where
  "index_hole = [Ch CHR ''['', NumHole, Ch CHR '']'']"

text \<open>\<^verbatim>\<open>IsTerminal<T>\<close> for one member.\<close>

fun IsTerminal :: "ty \<Rightarrow> bool" where
  "IsTerminal TString = True"
| "IsTerminal TNumber = True"
| "IsTerminal TBoolean = True"
| "IsTerminal (TLib l) = True"
| "IsTerminal (TArray e) = False"
| "IsTerminal (TTuple es) = False"
| "IsTerminal (TObject ps idx) = False"
| "IsTerminal (TRef n) = False"
| "IsTerminal t = True"

text \<open>\<^verbatim>\<open>MaxDepth\<close>.\<close>

definition MaxDepth :: int where
  "MaxDepth = 5"

text \<open>
  \<^verbatim>\<open>DecreaseDepth<D> = [-1, 0, 1, 2, 3, 4, 5][D]\<close>; the tuple has no element outside
  its seven positions.
\<close>

definition DecreaseDepth :: "int \<Rightarrow> int option" where
  "DecreaseDepth d = (if 0 \<le> d \<and> d < 7 then Some ([-1, 0, 1, 2, 3, 4, 5] ! nat d) else None)"

text \<open>
  \<^verbatim>\<open>GetArrayPathSegments<T>\<close>, distributive in \<open>T\<close>.  A tuple matches
  \<^verbatim>\<open>(infer ArrayElement)[]\<close> with the union of its element types; a type that is
  not an array gives the empty string.
\<close>

fun GetArrayPathSegments :: "ty \<Rightarrow> pattern list" where
  "GetArrayPathSegments (TArray e) =
     index_hole # map (\<lambda>p. index_hole @ p) (GetArrayPathSegments e)"
| "GetArrayPathSegments (TTuple es) =
     index_hole # map (\<lambda>p. index_hole @ p) (concat (map GetArrayPathSegments es))"
| "GetArrayPathSegments (TUnion ts) = concat (map GetArrayPathSegments ts)"
| "GetArrayPathSegments t = [[]]"

text \<open>
  The three checks that \<^verbatim>\<open>Paths\<close> makes on the type \<^verbatim>\<open>T[K]\<close> of a property.  None
  of them distributes.

  \<^verbatim>\<open>T[K] extends (infer ArrayElement)[] | undefined\<close>: every member is an array, a
  tuple or \<^verbatim>\<open>undefined\<close>.  \<open>infer_element\<close> is the inferred \<^verbatim>\<open>ArrayElement\<close>.
  With several arrays of different element types the checker infers one candidate and
  checks the others against it, which needs the subtype relation: the model gives no
  answer there (\<open>None\<close>).  With no array at all the inferred type is \<^verbatim>\<open>unknown\<close>,
  of which \<^verbatim>\<open>GetArrayElementPaths\<close> is \<^verbatim>\<open>never\<close>, as it is of \<^verbatim>\<open>never\<close>.
\<close>

definition array_or_undefined :: "ty \<Rightarrow> bool" where
  "array_or_undefined t = list_all (\<lambda>a. is_array a \<or> a = TUndefined) (flat t)"

definition infer_element :: "ty \<Rightarrow> ty option" where
  "infer_element t =
     (case remdups (map ArrayElementType_member (filter is_array (flat t))) of
        [] \<Rightarrow> Some never
      | [e] \<Rightarrow> Some e
      | _ \<Rightarrow> None)"

text \<open>
  \<^verbatim>\<open>T[K] extends Record<string, infer V>\<close> together with
  \<^verbatim>\<open>string extends keyof T[K]\<close>: every member has a string index signature, and
  \<open>V\<close> is its type (\<open>None\<close> when the members disagree, as above).
\<close>

definition string_indexed :: "decls \<Rightarrow> ty \<Rightarrow> bool" where
  "string_indexed env t = (atoms env t \<noteq> [] \<and> list_all has_string_index (atoms env t))"

definition infer_value :: "decls \<Rightarrow> ty \<Rightarrow> ty option" where
  "infer_value env t =
     (case remdups (map index_signature (atoms env t)) of [v] \<Rightarrow> Some v | _ \<Rightarrow> None)"

text \<open>\<^verbatim>\<open>T[K] extends object | undefined\<close>.\<close>

definition object_or_undefined :: "ty \<Rightarrow> bool" where
  "object_or_undefined t = list_all (\<lambda>a. is_object a \<or> a = TUndefined) (flat t)"

text \<open>All results, or none if one is missing.\<close>

definition collect :: "'a list option list \<Rightarrow> 'a list option" where
  "collect rs = map_option concat (those rs)"

text \<open>
  \<^verbatim>\<open>Paths<T, Depth>\<close> and \<^verbatim>\<open>GetArrayElementPaths<U, D>\<close> call each other.  Both
  distribute over their first argument; \<open>Paths_member\<close> and
  \<open>GetArrayElementPaths_member\<close> are the bodies for one member, and \<open>Paths_key\<close>
  is the body of the mapped type for one key, given as the pattern of the key and the
  type \<^verbatim>\<open>T[K]\<close>.  Each of these takes the function to use for \<^verbatim>\<open>Paths\<close> as its
  argument \<open>paths\<close>; \<open>Paths\<close> itself closes the recursion.

  The first argument of \<open>Paths\<close> counts the nested instantiations of \<^verbatim>\<open>Paths\<close>
  that are still allowed: a type that contains itself as an array element is expanded
  at the same depth without end, and the checker gives up.  The result \<open>None\<close> is
  that, or one of the cases that the model does not answer: an array or a tuple as
  \<open>T\<close> itself, where the mapped type ranges over the members of the library's array
  interface, a depth outside the tuple of \<^verbatim>\<open>DecreaseDepth\<close>, and the two inferences
  above.

  The mapped type ranges over \<^verbatim>\<open>keyof T\<close>: the declared properties, or, for a type
  with a string index signature, the key \<^verbatim>\<open>string\<close> alone.

  In \<open>Paths_key\<close> the source has, for a \<^verbatim>\<open>T[K]\<close> that matches
  \<^verbatim>\<open>Record<string, infer V>\<close> without a string index signature, the union
  \<^verbatim>\<open>K | `${K}.${Paths<T[K], DecreaseDepth<Depth>>}`\<close>.  Such a type has no member
  \<^verbatim>\<open>undefined\<close> and satisfies \<^verbatim>\<open>T[K] extends object | undefined\<close>, whose branch is
  the same union; the two branches are one case here.
\<close>

definition GetArrayElementPaths_member ::
  "(ty \<Rightarrow> int \<Rightarrow> pattern list option) \<Rightarrow> ty \<Rightarrow> int \<Rightarrow> pattern list option" where
  "GetArrayElementPaths_member paths a d =
     (if is_array a then Some []
      else if is_object a
      then (if IsTerminal a then Some []
            else map_option (map (\<lambda>p. index_hole @ lit ''.'' @ p)) (paths a d))
      else Some [])"

definition GetArrayElementPaths ::
  "(ty \<Rightarrow> int \<Rightarrow> pattern list option) \<Rightarrow> decls \<Rightarrow> ty \<Rightarrow> int \<Rightarrow> pattern list option" where
  "GetArrayElementPaths paths env u d =
     collect (map (\<lambda>a. GetArrayElementPaths_member paths a d) (atoms env u))"

definition Paths_key ::
  "(ty \<Rightarrow> int \<Rightarrow> pattern list option) \<Rightarrow> decls \<Rightarrow> pattern \<Rightarrow> ty \<Rightarrow> int
    \<Rightarrow> pattern list option" where
  "Paths_key paths env k tk d =
     (if array_or_undefined tk
      then (case infer_element tk of
              None \<Rightarrow> None
            | Some e \<Rightarrow>
                map_option
                  (\<lambda>ps. k # map (\<lambda>p. k @ p) (concat (map GetArrayPathSegments (flat tk)))
                           @ map (\<lambda>p. k @ p) ps)
                  (GetArrayElementPaths paths env e d))
      else if string_indexed env tk
      then (case infer_value env tk of
              None \<Rightarrow> None
            | Some v \<Rightarrow>
                collect (map (\<lambda>a. if is_object a
                                   then (case DecreaseDepth d of
                                           None \<Rightarrow> None
                                         | Some d' \<Rightarrow>
                                             map_option
                                               (\<lambda>ps. k # (k @ lit ''.'' @ [StrHole])
                                                  # map (\<lambda>p. k @ lit ''.'' @ [StrHole] @ lit ''.'' @ p) ps)
                                               (paths a d'))
                                   else Some [k, k @ lit ''.'' @ [StrHole]])
                          (atoms env v)))
      else if object_or_undefined tk
      then (case DecreaseDepth d of
              None \<Rightarrow> None
            | Some d' \<Rightarrow>
                map_option (\<lambda>ps. k # map (\<lambda>p. k @ lit ''.'' @ p) ps)
                  (paths (ExcludeUndefined tk) d'))
      else Some [k])"

definition Paths_member ::
  "(ty \<Rightarrow> int \<Rightarrow> pattern list option) \<Rightarrow> decls \<Rightarrow> ty \<Rightarrow> int \<Rightarrow> pattern list option" where
  "Paths_member paths env a d =
     (if is_object a
      then (if IsTerminal a then Some []
            else (case a of
                    TObject ps None \<Rightarrow>
                      collect (map (\<lambda>(n, p). Paths_key paths env (lit n) (prop_type p) d) ps)
                  | TObject ps (Some v) \<Rightarrow> Paths_key paths env [StrHole] v d
                  | _ \<Rightarrow> None))
      else Some [])"

primrec Paths :: "nat \<Rightarrow> decls \<Rightarrow> ty \<Rightarrow> int \<Rightarrow> pattern list option" where
  "Paths 0 env t d = None"
| "Paths (Suc fuel) env t d =
     (if d = 0 then Some []
      else collect (map (\<lambda>a. Paths_member (Paths fuel env) env a d) (atoms env t)))"

text \<open>
  One function for \<^verbatim>\<open>Paths\<close> extends another when it has every result of the other:
  what more allowed instantiations give.
\<close>

definition extends_paths ::
  "(ty \<Rightarrow> int \<Rightarrow> pattern list option) \<Rightarrow> (ty \<Rightarrow> int \<Rightarrow> pattern list option) \<Rightarrow> bool" where
  "extends_paths p q = (\<forall>a d r. p a d = Some r \<longrightarrow> q a d = Some r)"

declare decimal_of.simps [simp del]

declare TypeAt.simps [simp del] NestedKeyType.simps [simp del] ArrayType.simps [simp del]
  ArrayType_member.simps [simp del] OptionalKeyType.simps [simp del]

section \<open>Schemas used in the statements\<close>

text \<open>No named interfaces.\<close>

definition no_decls :: decls where
  "no_decls = (\<lambda>n. ([], None))"

text \<open>\<^verbatim>\<open>interface CircularType { name: string; child?: CircularType }\<close>.\<close>

definition CircularType_decls :: decls where
  "CircularType_decls =
     (\<lambda>n. if n = ''CircularType''
          then ([(''name'', False, TString), (''child'', True, TRef ''CircularType'')], None)
          else ([], None))"




text \<open>\<^verbatim>\<open>{ opt?: { prop: string } }\<close>.\<close>

definition OptionalPropType :: ty where
  "OptionalPropType = TObject [(''opt'', True, TObject [(''prop'', False, TString)] None)] None"

text \<open>
  \<^verbatim>\<open>{ "a.b": { c: number }; a: { b: { c: string } } }\<close>, the schema of the
  explicit-key precedence scenario.
\<close>

definition PrecedenceType :: ty where
  "PrecedenceType =
     TObject [(''a.b'', False, TObject [(''c'', False, TNumber)] None),
              (''a'', False, TObject [(''b'', False, TObject [(''c'', False, TString)] None)] None)]
       None"


text \<open>
  The types of the repository's tests of \<^verbatim>\<open>TypeAt\<close> and \<^verbatim>\<open>Paths\<close>, with
  \<^verbatim>\<open>string\<close>, \<^verbatim>\<open>number\<close> and \<^verbatim>\<open>boolean\<close> for the marker types of the leaves.
\<close>

definition TType :: ty where
  "TType =
     TObject [(''prop'', False, TString),
              (''arr'', False, TArray TNumber),
              (''nested'', False,
                 TObject [(''inner'', False, TBoolean), (''arrayInner'', False, TArray TNumber)] None),
              (''opt'', True, TObject [(''prop'', False, TString)] None),
              (''union'', False,
                 TUnion [TObject [(''prop'', False, TString)] None,
                         TObject [(''other'', False, TNumber)] None,
                         TObject [(''other'', False, TBoolean)] None])]
       None"

definition Dictionary :: ty where
  "Dictionary =
     TObject [] (Some (TObject [(''inner'', False, TBoolean),
                                (''arrayInner'', False, TArray TNumber)] None))"

definition RecursiveType_decls :: decls where
  "RecursiveType_decls =
     (\<lambda>n. if n = ''RecursiveType''
          then ([(''name'', False, TString),
                 (''children'', True, TArray (TRef ''RecursiveType''))], None)
          else ([], None))"

definition TupleType :: ty where
  "TupleType =
     TObject [(''coordinates'', False, TTuple [TNumber, TNumber]),
              (''mixed'', False,
                 TTuple [TString, TObject [(''x'', False, TNumber)] None, TArray TNumber])]
       None"

definition ArrayTestType :: ty where
  "ArrayTestType =
     TObject [(''items'', False,
       TArray (TObject [(''id'', False, TNumber), (''tags'', False, TArray TString)] None))] None"

definition RecordType :: ty where
  "RecordType =
     TObject [(''users'', False,
                 TObject [] (Some (TObject [(''name'', False, TString),
                                            (''role'', False, TString)] None))),
              (''settings'', False, TObject [] (Some TBoolean))]
       None"

definition MixedArrayType :: ty where
  "MixedArrayType =
     TObject [(''matrixtwo'', False, TArray (TArray (TUnion [TNumber, TString]))),
              (''mixed'', False,
                 TArray (TUnion [TString,
                   TObject [(''id'', False, TNumber), (''value'', False, TString)] None]))]
       None"

text \<open>\<^verbatim>\<open>{ "a.b"?: string; a: { b: number } }\<close>: the dotted name is an optional field.\<close>

definition OptionalDottedType :: ty where
  "OptionalDottedType =
     TObject [(''a.b'', True, TString),
              (''a'', False, TObject [(''b'', False, TNumber)] None)] None"

text \<open>\<^verbatim>\<open>{ prop: string } | { other: number } | { other: boolean }\<close>.\<close>

definition NestedUnionType :: ty where
  "NestedUnionType =
     TUnion [TObject [(''prop'', False, TString)] None,
             TObject [(''other'', False, TNumber)] None,
             TObject [(''other'', False, TBoolean)] None]"

text \<open>\<^verbatim>\<open>{ a: string } | { [key: string]: number }\<close>.\<close>

definition MixedUnionType :: ty where
  "MixedUnionType =
     TUnion [TObject [(''a'', False, TString)] None, TObject [] (Some TNumber)]"


text \<open>
  \<^verbatim>\<open>{ nullableOptional?: string | null; undefinedExplicit: string | undefined; nested: { ... } }\<close>
  with the same two fields again under \<^verbatim>\<open>nested\<close>.
\<close>

definition EdgeCasesType :: ty where
  "EdgeCasesType =
     TObject [(''nullableOptional'', True, TUnion [TString, TNull]),
              (''undefinedExplicit'', False, TUnion [TString, TUndefined]),
              (''nested'', False,
                 TObject [(''nullableOptional'', True, TUnion [TString, TNull]),
                          (''undefinedExplicit'', False, TUnion [TString, TUndefined])] None)]
       None"





section \<open>Paths that are not well-formed, and schemas without dictionaries\<close>

text \<open>
  A path is not well-formed when its brackets are unbalanced or one of its segments, the
  pieces between dots, is empty.  \<open>balanced_from d\<close> reads a text at bracket depth
  \<open>d\<close>; \<open>empty_segment_from e\<close> reads a text, \<open>e\<close> telling whether the segment
  read so far is empty.  \<open>malformed_rest\<close> is the same for what follows a closing
  bracket, where the segment read so far is not empty.
\<close>

text \<open>
  A schema is plain when it has no index signature and no named interface at any level
  and every property name is plain: not empty, without dot and without bracket.
\<close>

definition name_ok :: "string \<Rightarrow> bool" where
  "name_ok n = (n \<noteq> [] \<and> CHR ''.'' \<notin> set n \<and> CHR ''['' \<notin> set n \<and> CHR '']'' \<notin> set n)"

fun plain :: "ty \<Rightarrow> bool" where
  "plain (TObject ps idx) = (idx = None \<and> list_all (\<lambda>(n, opt, t). name_ok n \<and> plain t) ps)"
| "plain (TArray e) = plain e"
| "plain (TTuple es) = list_all plain es"
| "plain (TUnion ts) = list_all plain ts"
| "plain (TRef n) = False"
| "plain t = True"





section \<open>Regular schemas, and the paths of a pattern\<close>

text \<open>
  A schema is regular when it is built from object types with declared fields only,
  arrays, \<^verbatim>\<open>string\<close>, \<^verbatim>\<open>number\<close>, \<^verbatim>\<open>boolean\<close> and library objects: no union,
  no \<^verbatim>\<open>null\<close>, no tuple, no index signature, no named interface.  The fields of an
  object type have different names, each of them plain, and may be optional.
\<close>

fun regular :: "ty \<Rightarrow> bool" where
  "regular (TObject ps idx) =
     (idx = None \<and> distinct (map fst ps) \<and> list_all (\<lambda>(n, opt, t). name_ok n \<and> regular t) ps)"
| "regular (TArray e) = regular e"
| "regular TString = True"
| "regular TNumber = True"
| "regular TBoolean = True"
| "regular (TLib l) = True"
| "regular t = False"



text \<open>
  What \<^verbatim>\<open>Normalize<Merged<T>>\<close> is of a regular schema: the same schema, its own
  fields required (lemma \<open>Normalize_Merged_regular\<close> below).
\<close>

definition required_fields :: "property list \<Rightarrow> property list" where
  "required_fields ps = map (\<lambda>(n, opt, t). (n, False, t)) ps"

definition norm :: "ty \<Rightarrow> ty" where
  "norm t = (case t of TObject ps None \<Rightarrow> TObject (required_fields ps) None | _ \<Rightarrow> t)"


section \<open>The index-key rule never applies\<close>

lemma extends_true_always [simp]: "extends_true flag"
  by (cases flag) (simp_all add: extends_true_def)

lemma IsIndexKey_never [simp]: "\<not> IsIndexKey env t k"
  by (simp add: IsIndexKey_def)

lemma IndexKeyType_never [simp]: "IndexKeyType env t k = never"
  by (simp add: IndexKeyType_def)

section \<open>More instantiations never change a result of \<^verbatim>\<open>Paths\<close>\<close>

lemma those_map_mono:
  "those (map f xs) = Some r \<Longrightarrow> (\<And>x y. x \<in> set xs \<Longrightarrow> f x = Some y \<Longrightarrow> g x = Some y)
    \<Longrightarrow> those (map g xs) = Some r"
proof (induction xs arbitrary: r)
  case Nil
  then show ?case by simp
next
  case (Cons x xs)
  from Cons.prems(1) obtain y ys where y: "f x = Some y" and ys: "those (map f xs) = Some ys"
    and r: "r = y # ys"
    by (auto split: option.splits)
  have "g x = Some y" using Cons.prems(2) y by simp
  moreover have "those (map g xs) = Some ys"
    using Cons.IH [OF ys] Cons.prems(2) by simp
  ultimately show ?case using r by simp
qed

lemma collect_mono:
  assumes "collect (map f xs) = Some r"
    and "\<And>x y. x \<in> set xs \<Longrightarrow> f x = Some y \<Longrightarrow> g x = Some y"
  shows "collect (map g xs) = Some r"
proof -
  from assms(1) obtain z where z: "those (map f xs) = Some z" and r: "r = concat z"
    by (auto simp: collect_def)
  have "those (map g xs) = Some z"
    using z assms(2) by (rule those_map_mono)
  then show ?thesis by (simp add: collect_def r)
qed

lemma GetArrayElementPaths_member_mono:
  "extends_paths p q \<Longrightarrow> GetArrayElementPaths_member p a d = Some r
    \<Longrightarrow> GetArrayElementPaths_member q a d = Some r"
  by (auto simp: GetArrayElementPaths_member_def extends_paths_def split: if_splits)

lemma GetArrayElementPaths_mono:
  assumes "extends_paths p q" and "GetArrayElementPaths p env u d = Some r"
  shows "GetArrayElementPaths q env u d = Some r"
  using assms(2) unfolding GetArrayElementPaths_def
  by (rule collect_mono) (rule GetArrayElementPaths_member_mono [OF assms(1)])

lemma Paths_key_mono:
  assumes ext: "extends_paths p q" and res: "Paths_key p env k tk d = Some r"
  shows "Paths_key q env k tk d = Some r"
proof (cases "array_or_undefined tk")
  case True
  with res obtain e z where e: "infer_element tk = Some e"
    and z: "GetArrayElementPaths p env e d = Some z"
    and r: "r = k # map (\<lambda>p. k @ p) (concat (map GetArrayPathSegments (flat tk))) @ map (\<lambda>p. k @ p) z"
    by (auto simp: Paths_key_def split: option.splits)
  from GetArrayElementPaths_mono [OF ext z] e r True show ?thesis
    by (simp add: Paths_key_def)
next
  case arr: False
  show ?thesis
  proof (cases "string_indexed env tk")
    case True
    with arr res obtain v where v: "infer_value env tk = Some v"
      and c: "collect (map (\<lambda>a. if is_object a
                 then (case DecreaseDepth d of None \<Rightarrow> None
                       | Some d' \<Rightarrow>
                           map_option
                             (\<lambda>ps. k # (k @ lit ''.'' @ [StrHole])
                                # map (\<lambda>p. k @ lit ''.'' @ [StrHole] @ lit ''.'' @ p) ps)
                             (p a d'))
                 else Some [k, k @ lit ''.'' @ [StrHole]]) (atoms env v)) = Some r"
      by (auto simp: Paths_key_def split: option.splits)
    have "collect (map (\<lambda>a. if is_object a
                 then (case DecreaseDepth d of None \<Rightarrow> None
                       | Some d' \<Rightarrow>
                           map_option
                             (\<lambda>ps. k # (k @ lit ''.'' @ [StrHole])
                                # map (\<lambda>p. k @ lit ''.'' @ [StrHole] @ lit ''.'' @ p) ps)
                             (q a d'))
                 else Some [k, k @ lit ''.'' @ [StrHole]]) (atoms env v)) = Some r"
      using c
      by (rule collect_mono) (use ext in \<open>auto simp: extends_paths_def split: if_splits option.splits\<close>)
    with arr True v show ?thesis
      by (simp add: Paths_key_def)
  next
    case False
    with arr res ext show ?thesis
      by (auto simp: Paths_key_def extends_paths_def split: if_splits option.splits)
  qed
qed

lemma Paths_member_mono:
  assumes "extends_paths p q" and "Paths_member p env a d = Some r"
  shows "Paths_member q env a d = Some r"
proof -
  have props: "collect (map (\<lambda>(n, pr). Paths_key q env (lit n) (prop_type pr) d) ps) = Some r"
    if "collect (map (\<lambda>(n, pr). Paths_key p env (lit n) (prop_type pr) d) ps) = Some r" for ps
    using that
    by (rule collect_mono) (auto dest: Paths_key_mono [OF assms(1)])
  show ?thesis
    using assms(2)
    unfolding Paths_member_def
    by (auto split: if_splits ty.splits option.splits dest: props Paths_key_mono [OF assms(1)])
qed

lemma Paths_Suc: "Paths fuel env t d = Some r \<Longrightarrow> Paths (Suc fuel) env t d = Some r"
proof (induction fuel arbitrary: t d r)
  case 0
  then show ?case by simp
next
  case (Suc fuel)
  have ext: "extends_paths (Paths fuel env) (Paths (Suc fuel) env)"
    unfolding extends_paths_def using Suc.IH by blast
  show ?case
  proof (cases "d = 0")
    case True
    with Suc.prems show ?thesis by simp
  next
    case False
    with Suc.prems have "collect (map (\<lambda>a. Paths_member (Paths fuel env) env a d) (atoms env t)) = Some r"
      by simp
    then have "collect (map (\<lambda>a. Paths_member (Paths (Suc fuel) env) env a d) (atoms env t)) = Some r"
      by (rule collect_mono) (auto dest: Paths_member_mono [OF ext])
    with False show ?thesis by simp
  qed
qed

lemma Paths_more_fuel: "Paths fuel env t d = Some r \<Longrightarrow> Paths (fuel + n) env t d = Some r"
  by (induction n) (auto dest: Paths_Suc)

section \<open>Unions and keys\<close>

lemma flat_idem: "x \<in> set (flat t) \<Longrightarrow> flat x = [x]"
proof (induction t arbitrary: x rule: flat.induct)
  case (1 ts)
  then show ?case by auto
qed simp_all

lemma concat_flat_members:
  "(\<And>x. x \<in> set xs \<Longrightarrow> flat x = [x]) \<Longrightarrow> concat (map flat xs) = xs"
  by (induction xs) simp_all

lemma flat_unite: "flat (unite ts) = remdups (concat (map flat ts))"
proof -
  define l where "l = remdups (concat (map flat ts))"
  have members: "flat x = [x]" if "x \<in> set l" for x
    using that unfolding l_def by (auto dest: flat_idem)
  show ?thesis
  proof (cases l)
    case Nil
    then show ?thesis
      unfolding unite_def l_def [symmetric] by simp
  next
    case (Cons a m)
    show ?thesis
    proof (cases m)
      case Nil
      with Cons members [of a] show ?thesis
        unfolding unite_def l_def [symmetric] by simp
    next
      case (Cons b m')
      with \<open>l = a # m\<close> have "unite ts = TUnion l"
        unfolding unite_def l_def [symmetric] by simp
      then show ?thesis
        using concat_flat_members [of l] members unfolding l_def [symmetric] by simp
    qed
  qed
qed

lemma unite_single: "flat t = [t] \<Longrightarrow> unite [t] = t"
  by (simp add: unite_def)

lemma remdups_append_remdups: "remdups (remdups xs @ ys) = remdups (xs @ ys)"
  by (induction xs) auto

lemma remdups_concat_remdups: "remdups (concat (map remdups xss)) = remdups (concat xss)"
proof (induction xss)
  case Nil
  show ?case by simp
next
  case (Cons xs xss)
  have "remdups (concat (map remdups (xs # xss))) = remdups (xs @ concat (map remdups xss))"
    by (simp add: remdups_append_remdups)
  also have "\<dots> = remdups (xs @ remdups (concat (map remdups xss)))"
    by (simp only: remdups_append2)
  also have "\<dots> = remdups (xs @ concat xss)"
    by (simp only: Cons.IH remdups_append2)
  finally show ?case by simp
qed

lemma unite_eqI:
  "remdups (concat (map flat ts)) = remdups (concat (map flat us)) \<Longrightarrow> unite ts = unite us"
  by (simp add: unite_def)

lemma unite_unite_each: "unite (map (\<lambda>v. unite [f v]) vs) = unite (map f vs)"
proof (rule unite_eqI)
  have "remdups (concat (map (\<lambda>x. remdups (flat (f x))) vs)) =
      remdups (concat (map (\<lambda>x. flat (f x)) vs))"
    using remdups_concat_remdups [of "map (\<lambda>x. flat (f x)) vs"] by (simp add: comp_def)
  then show "remdups (concat (map flat (map (\<lambda>v. unite [f v]) vs))) =
      remdups (concat (map flat (map f vs)))"
    by (simp add: flat_unite comp_def)
qed

lemma atoms_member: "has_required v p \<Longrightarrow> atoms env v = [v]"
  by (cases v) (simp_all add: atoms_def)

lemma has_required_key_of: "has_required v p \<Longrightarrow> key_of v p"
  by (cases v) (auto split: option.splits)

lemma TypeAt_explicit: "IsExplicitKey env t p \<Longrightarrow> TypeAt num env t p = KeyType env t p"
  by (subst TypeAt.simps) simp

lemma KeyType_filter:
  "KeyType env t p = unite (map (\<lambda>v. index_atom v p) (filter (\<lambda>v. has_required v p) (atoms env t)))"
proof -
  have "concat (map flat (map (\<lambda>a. if has_required a p then (if key_of a p then index_atom a p else never) else never) xs))
      = concat (map flat (map (\<lambda>v. index_atom v p) (filter (\<lambda>v. has_required v p) xs)))" for xs
    by (induction xs) (simp_all add: has_required_key_of)
  then show ?thesis
    by (simp add: KeyType_def unite_def)
qed

lemma TypeAt_required_member:
  assumes "has_required v p"
  shows "TypeAt num env v p = unite [index_atom v p]"
proof -
  have "IsExplicitKey env v p"
    using assms by (simp add: IsExplicitKey_def atoms_member)
  then show ?thesis
    using assms by (simp add: TypeAt_explicit KeyType_filter atoms_member)
qed





lemma unite_object [simp]: "unite [TObject ps idx] = TObject ps idx"
  by (simp add: unite_def)



section \<open>The repository's type tests\<close>

text \<open>
  The definitions give the results that the repository's tests expect of the type
  checker (\<^verbatim>\<open>test/typeAt.test.ts\<close>, \<^verbatim>\<open>test/paths.test.ts\<close>).
\<close>

lemma test_TypeAt_nested_structures:
  "TypeAt decimal no_decls TType ''prop'' = TString
   \<and> TypeAt decimal no_decls TType ''arr'' = TArray TNumber
   \<and> TypeAt decimal no_decls TType ''arr[0]'' = TNumber
   \<and> TypeAt decimal no_decls TType ''nested.inner'' = TBoolean
   \<and> TypeAt decimal no_decls TType ''nested.arrayInner[0]'' = TNumber
   \<and> TypeAt decimal no_decls TType ''opt'' = TObject [(''prop'', False, TString)] None
   \<and> TypeAt decimal no_decls TType ''opt.prop'' = TString
   \<and> TypeAt decimal no_decls TType ''union.prop'' = TString
   \<and> TypeAt decimal no_decls TType ''union.other'' = TUnion [TNumber, TBoolean]"
  by code_simp

lemma test_TypeAt_dictionary:
  "TypeAt decimal no_decls Dictionary ''foo'' =
     TObject [(''inner'', False, TBoolean), (''arrayInner'', False, TArray TNumber)] None
   \<and> TypeAt decimal no_decls Dictionary ''foo.inner'' = TBoolean
   \<and> TypeAt decimal no_decls Dictionary ''foo.arrayInner'' = TArray TNumber
   \<and> TypeAt decimal no_decls Dictionary ''foo.arrayInner[0]'' = TNumber"
  by code_simp

lemma test_TypeAt_edge_cases:
  "TypeAt decimal no_decls EdgeCasesType ''nullableOptional'' = TUnion [TString, TNull]
   \<and> TypeAt decimal no_decls EdgeCasesType ''undefinedExplicit'' = TUnion [TString, TUndefined]
   \<and> TypeAt decimal no_decls (TArray TString) ''[0]'' = TString
   \<and> TypeAt decimal no_decls (TUnion [TArray (TObject [(''name'', False, TString)] None), TUndefined])
         ''[0].name'' = TString
   \<and> TypeAt decimal no_decls (TArray (TObject [] (Some TNumber))) ''[0].someKey'' = TNumber
   \<and> TypeAt decimal no_decls
         (TArray (TObject [(''items'', False, TArray (TArray (TUnion [TString, TNumber])))] None))
         ''[0].items[1][2]'' = TUnion [TString, TNumber]"
  by code_simp

lemma test_TypeAt_tuple_and_recursive:
  "TypeAt decimal no_decls TupleType ''coordinates[0]'' = TNumber
   \<and> TypeAt decimal no_decls TupleType ''mixed.1.x'' = TNumber
   \<and> TypeAt decimal no_decls TupleType ''mixed.2'' = TArray TNumber
   \<and> TypeAt decimal RecursiveType_decls (TRef ''RecursiveType'') ''children[0].children[0].name''
       = TString"
  by code_simp

lemma test_Paths_arrays:
  "map_option set (Paths 3 no_decls ArrayTestType MaxDepth) =
     Some (set [lit ''items'', lit ''items'' @ index_hole, lit ''items'' @ index_hole @ lit ''.id'',
           lit ''items'' @ index_hole @ lit ''.tags'',
           lit ''items'' @ index_hole @ lit ''.tags'' @ index_hole])
   \<and> map_option set (Paths 3 no_decls MixedArrayType MaxDepth) =
     Some (set [lit ''matrixtwo'', lit ''matrixtwo'' @ index_hole,
           lit ''matrixtwo'' @ index_hole @ index_hole,
           lit ''mixed'', lit ''mixed'' @ index_hole, lit ''mixed'' @ index_hole @ lit ''.id'',
           lit ''mixed'' @ index_hole @ lit ''.value''])"
  by code_simp

lemma test_Paths_record:
  "Paths 3 no_decls RecordType MaxDepth =
     Some [lit ''users'', lit ''users.'' @ [StrHole], lit ''users.'' @ [StrHole] @ lit ''.name'',
           lit ''users.'' @ [StrHole] @ lit ''.role'',
           lit ''settings'', lit ''settings.'' @ [StrHole]]"
  by code_simp

text \<open>
  The type that contains itself as an array element, of which the tests take no
  \<^verbatim>\<open>Paths\<close>: at every depth but 0 the expansion does not end within the allowed
  instantiations.
\<close>

lemma Paths_RecursiveType_no_result:
  "Paths 50 RecursiveType_decls (TRef ''RecursiveType'') MaxDepth = None"
  by code_simp

section \<open>Explicit keys\<close>

text \<open>
  C2, as the code has it.  When the path is the name of a required field of an object
  type, whatever the name contains, \<^verbatim>\<open>TypeAt\<close> returns the declared type of that
  field (as the checker builds it: a declared union flattened), and nothing else in the
  type is looked at.
\<close>

theorem C2_required_field_wins:
  assumes "map_of ps k = Some (False, t)"
  shows "TypeAt num env (TObject ps idx) k = unite [t]
    \<and> (flat t = [t] \<longrightarrow> TypeAt num env (TObject ps idx) k = t)"
proof -
  have "has_required (TObject ps idx) k"
    using assms by simp
  then have "TypeAt num env (TObject ps idx) k = unite [t]"
    using assms by (simp add: TypeAt_required_member prop_type_def)
  then show ?thesis
    by (simp add: unite_single)
qed


text \<open>The schema of the precedence scenario: the field named \<^verbatim>\<open>a.b\<close> wins.\<close>

theorem C2_required_field_wins_witness:
  "map_of [(''a.b'', False, TObject [(''c'', False, TNumber)] None),
           (''a'', False, TObject [(''b'', False, TObject [(''c'', False, TString)] None)] None)]
     ''a.b'' = Some (False, TObject [(''c'', False, TNumber)] None)
   \<and> TypeAt decimal no_decls PrecedenceType ''a.b'' = TObject [(''c'', False, TNumber)] None"
  using C2_required_field_wins [of
      "[(''a.b'', False, TObject [(''c'', False, TNumber)] None),
        (''a'', False, TObject [(''b'', False, TObject [(''c'', False, TString)] None)] None)]"
      "''a.b''" "TObject [(''c'', False, TNumber)] None" decimal no_decls None]
  by (simp add: PrecedenceType_def)

text \<open>
  C2 as stated, for every schema with a field named \<^verbatim>\<open>a.b\<close>, fails when that field
  is optional: \<^verbatim>\<open>IsExplicitKey\<close> does not hold of an optional field, and the path is
  resolved through \<^verbatim>\<open>a\<close> and \<^verbatim>\<open>b\<close>.
\<close>

theorem C2_counterexample:
  "TypeAt decimal no_decls OptionalDottedType ''a.b'' \<noteq> TString
   \<and> TypeAt decimal no_decls OptionalDottedType ''a.b'' = TNumber"
  by code_simp

section \<open>The explicit-key precedence scenario\<close>

text \<open>
  C3, as the code has it.  In the schema with a field named \<^verbatim>\<open>a.b\<close> of shape
  \<^verbatim>\<open>{c: number}\<close> and a field \<^verbatim>\<open>a\<close> of shape \<^verbatim>\<open>{b: {c: string}}\<close>, the path
  \<^verbatim>\<open>a.b.c\<close> is not the name of a field, so it is split at its first dot and resolved
  through \<^verbatim>\<open>a\<close>, then \<^verbatim>\<open>b\<close>, then \<^verbatim>\<open>c\<close>: the result is \<^verbatim>\<open>string\<close>.  Only the
  path \<^verbatim>\<open>a.b\<close>, which is the whole name of a field, resolves to that field.
\<close>

theorem C3_three_segments_nested_branch:
  "TypeAt num env PrecedenceType ''a.b.c'' = TString
   \<and> NestedKeyType num env PrecedenceType ''a.b.c'' = TString
   \<and> \<not> IsExplicitKey env PrecedenceType ''a.b.c''
   \<and> TypeAt num env PrecedenceType ''a.b'' = TObject [(''c'', False, TNumber)] None"
  by code_simp

text \<open>
  C3 as stated, that the path \<^verbatim>\<open>a.b.c\<close> resolves to \<^verbatim>\<open>number\<close> through the field
  named \<^verbatim>\<open>a.b\<close>, fails.
\<close>

theorem C3_counterexample:
  "TypeAt decimal no_decls PrecedenceType ''a.b.c'' \<noteq> TNumber"
  by code_simp

section \<open>The depth bound\<close>

text \<open>
  C4.  For the self-referential interface \<^verbatim>\<open>CircularType\<close> and the default maximum
  depth 5, \<^verbatim>\<open>Paths\<close> has a result whenever six or more nested instantiations are
  allowed, and the result is exactly the ten paths of the chain, down to five levels of
  \<^verbatim>\<open>child\<close>.  The depth goes down by one at each descent into \<^verbatim>\<open>child\<close>: at
  depth 1 the paths are the two fields, at depth 0 there are none.
\<close>

theorem C4_circular_depth_bound:
  "Paths (6 + n) CircularType_decls (TRef ''CircularType'') MaxDepth =
     Some (map lit [''name'', ''child'', ''child.name'', ''child.child'',
       ''child.child.name'', ''child.child.child'', ''child.child.child.name'',
       ''child.child.child.child'', ''child.child.child.child.name'',
       ''child.child.child.child.child''])
   \<and> Paths (2 + n) CircularType_decls (TRef ''CircularType'') 1 = Some (map lit [''name'', ''child''])
   \<and> Paths (1 + n) CircularType_decls (TRef ''CircularType'') 0 = Some []"
proof -
  have "Paths 6 CircularType_decls (TRef ''CircularType'') MaxDepth =
     Some (map lit [''name'', ''child'', ''child.name'', ''child.child'',
       ''child.child.name'', ''child.child.child'', ''child.child.child.name'',
       ''child.child.child.child'', ''child.child.child.child.name'',
       ''child.child.child.child.child''])"
    by code_simp
  moreover have "Paths 2 CircularType_decls (TRef ''CircularType'') 1 = Some (map lit [''name'', ''child''])"
    by code_simp
  moreover have "Paths 1 CircularType_decls (TRef ''CircularType'') 0 = Some []"
    by code_simp
  ultimately show ?thesis
    by (blast intro: Paths_more_fuel)
qed

section \<open>Resolution has no depth\<close>




section \<open>Unions\<close>

text \<open>
  C6, as the code has it.  When at least one member of the union declares the key as a
  required field, \<^verbatim>\<open>TypeAt\<close> is the union of what the key resolves to in exactly
  those members.
\<close>

theorem C6_explicit_key_distributes:
  assumes "IsExplicitKey env u p"
  shows "TypeAt num env u p =
    unite (map (\<lambda>v. TypeAt num env v p) (filter (\<lambda>v. has_required v p) (atoms env u)))"
proof -
  let ?vs = "filter (\<lambda>v. has_required v p) (atoms env u)"
  have each: "map (\<lambda>v. TypeAt num env v p) ?vs = map (\<lambda>v. unite [index_atom v p]) ?vs"
    by (rule map_cong) (simp_all add: TypeAt_required_member)
  have "TypeAt num env u p = unite (map (\<lambda>v. index_atom v p) ?vs)"
    using assms by (simp add: TypeAt_explicit KeyType_filter)
  also have "\<dots> = unite (map (\<lambda>v. unite [index_atom v p]) ?vs)"
    by (rule unite_unite_each [symmetric])
  finally show ?thesis
    by (simp only: each)
qed

text \<open>The union of the repository's test: \<^verbatim>\<open>other\<close> resolves to the two types.\<close>

theorem C6_explicit_key_distributes_witness:
  "IsExplicitKey no_decls NestedUnionType ''other''
   \<and> TypeAt decimal no_decls NestedUnionType ''other'' = TUnion [TNumber, TBoolean]"
proof -
  have explicit: "IsExplicitKey no_decls NestedUnionType ''other''"
    by code_simp
  have "unite (map (\<lambda>v. TypeAt decimal no_decls v ''other'')
      (filter (\<lambda>v. has_required v ''other'') (atoms no_decls NestedUnionType))) =
      TUnion [TNumber, TBoolean]"
    by code_simp
  with explicit C6_explicit_key_distributes [OF explicit, of decimal] show ?thesis
    by simp
qed

text \<open>
  C6 as stated fails: the key \<^verbatim>\<open>a\<close> resolves in both members, to \<^verbatim>\<open>string\<close>
  in the first and, by the index signature, to \<^verbatim>\<open>number\<close> in the second, and in
  the union it resolves to \<^verbatim>\<open>string\<close> alone.
\<close>

theorem C6_counterexample:
  "TypeAt decimal no_decls (TObject [(''a'', False, TString)] None) ''a'' = TString
   \<and> TypeAt decimal no_decls (TObject [] (Some TNumber)) ''a'' = TNumber
   \<and> TypeAt decimal no_decls MixedUnionType ''a'' = TString
   \<and> TypeAt decimal no_decls MixedUnionType ''a'' \<noteq> unite [TString, TNumber]"
  by code_simp

section \<open>Dictionaries\<close>




section \<open>Optional properties\<close>

text \<open>
  C8.  For \<^verbatim>\<open>{ opt?: { prop: string } }\<close> the path \<^verbatim>\<open>opt.prop\<close> resolves to
  \<^verbatim>\<open>string\<close>, without \<^verbatim>\<open>undefined\<close>, and \<^verbatim>\<open>Paths\<close> is exactly \<^verbatim>\<open>opt\<close> and
  \<^verbatim>\<open>opt.prop\<close>: the optional marker removes no path.
\<close>

theorem C8_optional_unwrap:
  "TypeAt num env OptionalPropType ''opt.prop'' = TString
   \<and> OptionalKeyType num env OptionalPropType ''opt.prop'' = TString
   \<and> Paths (2 + n) env OptionalPropType MaxDepth = Some (map lit [''opt'', ''opt.prop''])"
proof -
  have "TypeAt num env OptionalPropType ''opt.prop'' = TString"
    by code_simp
  moreover have "OptionalKeyType num env OptionalPropType ''opt.prop'' = TString"
    by code_simp
  moreover have "Paths 2 env OptionalPropType MaxDepth = Some (map lit [''opt'', ''opt.prop''])"
    by code_simp
  ultimately show ?thesis
    by (blast intro: Paths_more_fuel)
qed

section \<open>Paths that are not well-formed\<close>













lemma plain_flat: "plain t \<Longrightarrow> a \<in> set (flat t) \<Longrightarrow> plain a \<and> (\<forall>n. a \<noteq> TRef n)"
proof (induction t arbitrary: a rule: flat.induct)
  case (1 ts)
  then show ?case by (auto simp: list_all_iff)
qed auto

lemma plain_atoms: "plain t \<Longrightarrow> atoms env t = flat t"
proof -
  assume "plain t"
  then have "\<forall>a \<in> set (flat t). (case a of TRef n \<Rightarrow> TObject (fst (env n)) (snd (env n)) | _ \<Rightarrow> a) = a"
    by (auto dest: plain_flat split: ty.splits)
  then show ?thesis
    unfolding atoms_def by (simp add: map_idI)
qed























lemma atoms_never [simp]: "atoms env never = []"
  by (simp add: atoms_def)










section \<open>Absent values\<close>


lemma concat_flat_filter:
  "concat (map flat (filter P (flat t))) = filter P (flat t)"
  by (rule concat_flat_members) (auto dest: flat_idem)






section \<open>Round trip\<close>

subsection \<open>Regular schemas\<close>




lemma regular_plain: "regular t \<Longrightarrow> plain t"
  by (induction t rule: regular.induct) (auto simp: list_all_iff)

lemma regular_flat: "regular t \<Longrightarrow> flat t = [t]"
  by (cases t) auto

lemma regular_atoms: "regular t \<Longrightarrow> atoms env t = [t]"
  by (simp add: plain_atoms regular_plain regular_flat)




lemma prop_type_regular:
  "regular t \<Longrightarrow> prop_type (opt, t) = (if opt then TUnion [t, TUndefined] else t)"
  by (cases t) (auto simp: prop_type_def unite_def)


lemma ExcludeUndefined_prop_type: "regular t \<Longrightarrow> ExcludeUndefined (prop_type (opt, t)) = t"
  by (cases t) (auto simp: prop_type_regular ExcludeUndefined_def unite_def)





subsection \<open>One step of a path against a regular object type\<close>











lemma norm_array [simp]: "norm (TArray e) = TArray e"
  by (simp add: norm_def)


subsection \<open>Where a pattern of \<^verbatim>\<open>Paths\<close> comes from\<close>





subsection \<open>\<^verbatim>\<open>Paths\<close> answers on a regular schema\<close>

text \<open>
  For a regular schema that is not itself an array, at a depth from 0 to 6,
  \<^verbatim>\<open>Paths\<close> has a result as soon as the instantiations allowed are more than the size
  of the schema.
\<close>

lemma size_field: "(n, opt, tn) \<in> set ps \<Longrightarrow> size tn < size (TObject ps idx)"
  by (induction ps) auto

lemma collect_returns:
  "(\<And>x. x \<in> set xs \<Longrightarrow> \<exists>y. f x = Some y) \<Longrightarrow> \<exists>r. collect (map f xs) = Some r"
proof (induction xs)
  case Nil
  then show ?case by (simp add: collect_def)
next
  case (Cons x xs)
  then obtain y r where "f x = Some y" and "collect (map f xs) = Some r"
    by (metis list.set_intros)
  then show ?case
    by (auto simp: collect_def)
qed

lemma Paths_regular_returns:
  assumes "regular t" and "\<not> is_array t" and "size t < fuel" and "0 \<le> d" and "d \<le> 6"
  shows "\<exists>r. Paths fuel env t d = Some r"
  using assms
proof (induction fuel arbitrary: t d)
  case 0
  then show ?case by simp
next
  case (Suc fuel)
  show ?case
  proof (cases "d = 0")
    case True
    then show ?thesis by simp
  next
    case False
    have "\<exists>r. Paths_member (Paths fuel env) env t d = Some r"
    proof (cases t)
      case (TObject ps idx)
      with Suc.prems(1) have idx: "idx = None"
        by simp
      have "\<exists>y. Paths_key (Paths fuel env) env (lit n) (prop_type (opt, tn)) d = Some y"
        if f: "(n, opt, tn) \<in> set ps" for n opt tn
      proof -
        have tn: "regular tn"
          using Suc.prems(1) f unfolding TObject by (auto simp: list_all_iff)
        have size_tn: "size tn < fuel"
          using size_field [OF f, of idx] Suc.prems(3) unfolding TObject by simp
        have tk: "flat (prop_type (opt, tn)) = (if opt then [tn, TUndefined] else [tn])"
          using tn by (simp add: prop_type_regular regular_flat)
        have defined: "tn \<noteq> TUndefined"
          using tn by auto
        show ?thesis
        proof (cases "is_array tn")
          case True
          with tn obtain e where e: "tn = TArray e" and reg: "regular e"
            by (cases tn) auto
          have a: "array_or_undefined (prop_type (opt, tn))"
            unfolding array_or_undefined_def tk by (simp add: e)
          have i: "infer_element (prop_type (opt, tn)) = Some e"
            unfolding infer_element_def tk by (simp add: e)
          have "\<exists>r. GetArrayElementPaths_member (Paths fuel env) e d = Some r"
          proof (cases "is_array e")
            case True
            then show ?thesis by (simp add: GetArrayElementPaths_member_def)
          next
            case False
            have "size e < fuel"
              using size_tn by (simp add: e)
            with reg False obtain r where "Paths fuel env e d = Some r"
              using Suc.IH [of e d] Suc.prems(4,5) by blast
            then show ?thesis
              by (simp add: GetArrayElementPaths_member_def)
          qed
          then have "\<exists>r. GetArrayElementPaths (Paths fuel env) env e d = Some r"
            by (auto simp: GetArrayElementPaths_def regular_atoms [OF reg] collect_def)
          then show ?thesis
            by (auto simp: Paths_key_def a i)
        next
          case False
          have no_array: "\<not> array_or_undefined (prop_type (opt, tn))"
            using False defined by (simp add: array_or_undefined_def tk)
          have no_index: "\<not> string_indexed env (prop_type (opt, tn))"
          proof -
            have "\<not> has_string_index tn"
              using tn by (cases tn) auto
            then show ?thesis
              unfolding string_indexed_def atoms_def tk using tn by (cases tn) auto
          qed
          show ?thesis
          proof (cases "object_or_undefined (prop_type (opt, tn))")
            case True
            from Suc.prems(4,5) \<open>d \<noteq> 0\<close> have dd: "DecreaseDepth d = Some (d - 1)"
            proof -
              have "nat d \<in> {1, 2, 3, 4, 5, 6}"
                using Suc.prems(4,5) \<open>d \<noteq> 0\<close> by auto
              then have "[-1, 0, 1, 2, 3, 4, 5] ! nat d = d - 1"
                by auto
              then show ?thesis
                using Suc.prems(4,5) by (simp add: DecreaseDepth_def)
            qed
            have "\<exists>r. Paths fuel env tn (d - 1) = Some r"
              using Suc.IH [of tn "d - 1"] tn False size_tn Suc.prems(4,5) \<open>d \<noteq> 0\<close> by simp
            then show ?thesis
              using no_array no_index True
              by (auto simp: Paths_key_def dd ExcludeUndefined_prop_type [OF tn])
          next
            case False
            with no_array no_index show ?thesis
              by (simp add: Paths_key_def)
          qed
        qed
      qed
      then have "\<exists>r. collect (map (\<lambda>(n, p). Paths_key (Paths fuel env) env (lit n) (prop_type p) d) ps) = Some r"
        by (intro collect_returns) auto
      then show ?thesis
        by (simp add: Paths_member_def TObject idx)
    qed (use Suc.prems(1,2) in \<open>simp_all add: Paths_member_def\<close>)
    then show ?thesis
      using False by (auto simp: regular_atoms [OF Suc.prems(1)] collect_def)
  qed
qed

subsection \<open>Every enumerated path of a regular schema resolves\<close>





end
